theory Spec2Isabelle
  imports Complex_Main "HOL-Library.AList" "HOL-Library.Multiset"
    "HOL-Library.Char_ord" "HOL-Library.List_Lexorder"
begin

section \<open>Python values and string formatting\<close>

text \<open>
  Query parameters are a \<open>Dict[str, Any]\<close>. The values the server passes are strings (the
  search query, the API key); integers are admitted as well. \<open>py_str v\<close> is what the
  f-string \<open>f"{v}"\<close> renders.
\<close>

datatype pyval = PStr string | PInt int

definition digit_char :: "nat \<Rightarrow> char" where
  "digit_char d = char_of (48 + d)"

fun digits_nat :: "nat \<Rightarrow> string" where
  "digits_nat n = (if n < 10 then [digit_char n] else digits_nat (n div 10) @ [digit_char (n mod 10)])"

declare digits_nat.simps [simp del]

definition str_int :: "int \<Rightarrow> string" where
  "str_int i = (if i < 0 then CHR ''-'' # digits_nat (nat (- i)) else digits_nat (nat i))"

fun py_str :: "pyval \<Rightarrow> string" where
  "py_str (PStr s) = s"
| "py_str (PInt i) = str_int i"

text \<open>\<open>sep.join(xs)\<close> of Python.\<close>

fun join :: "string \<Rightarrow> string list \<Rightarrow> string" where
  "join sep [] = []"
| "join sep [x] = x"
| "join sep (x # y # ys) = x @ sep @ join sep (y # ys)"

section \<open>Cache keys\<close>

text \<open>
  A Python dict is an insertion-ordered association list with distinct keys.
  \<open>sorted(params.items())\<close> orders the (key, value) tuples; the keys of a dict are
  distinct, so the order is decided by the keys alone (strings compare lexicographically
  by character code).
\<close>

type_synonym params = "(string \<times> pyval) list"

definition param_str :: "params \<Rightarrow> string" where
  "param_str ps = join ''&'' (map (\<lambda>(k, v). k @ ''='' @ py_str v) (sort_key fst ps))"

text \<open>\<open>get_cache_key\<close>: \<open>None\<close> and the empty dict are both falsy.\<close>

definition get_cache_key :: "string \<Rightarrow> params option \<Rightarrow> string" where
  "get_cache_key endpoint params =
     (case params of
        None \<Rightarrow> endpoint
      | Some ps \<Rightarrow> if ps \<noteq> [] then endpoint @ ''?'' @ param_str ps else endpoint)"

text \<open>\<open>d.update(ps)\<close>: a key already present keeps its position, a new key goes last.\<close>

definition dict_update :: "('k \<times> 'v) list \<Rightarrow> ('k \<times> 'v) list \<Rightarrow> ('k \<times> 'v) list" where
  "dict_update d ps = fold (\<lambda>(k, v). AList.update k v) ps d"

text \<open>
  \<open>API_PARAMS\<close> is built once from the environment variable \<open>OPENDOTA_API_KEY\<close>, here the
  argument \<open>key\<close>.
\<close>

definition API_PARAMS :: "string \<Rightarrow> params" where
  "API_PARAMS key = (if key \<noteq> [] then [(''api_key'', PStr key)] else [])"

text \<open>The request parameters and the cache key that \<open>make_opendota_request\<close> builds inline.\<close>

definition request_params_of :: "string \<Rightarrow> params option \<Rightarrow> params" where
  "request_params_of key params =
     (case params of
        None \<Rightarrow> API_PARAMS key
      | Some ps \<Rightarrow> if ps \<noteq> [] then dict_update (API_PARAMS key) ps else API_PARAMS key)"

definition request_cache_key :: "string \<Rightarrow> string \<Rightarrow> params option \<Rightarrow> string" where
  "request_cache_key key endpoint params =
     (let request_params = request_params_of key params
      in if request_params \<noteq> [] then endpoint @ ''?'' @ param_str request_params else endpoint)"

section \<open>Error results\<close>

text \<open>
  The dispatcher returns \<open>{"error": message}\<close> from five places. The kind names the place:
  \<open>RateLimited\<close>, \<open>NotFound\<close>, \<open>UpstreamServerError\<close> and \<open>TransportError\<close> are the four
  returns of the \<open>except httpx.HTTPStatusError\<close> handler (429, 404, 500 and above, any other
  status: "HTTP error ..."), and \<open>Unknown\<close> is the return of the catch-all
  \<open>except Exception\<close> handler, whose message is "Unexpected error: ...".
\<close>

datatype error_kind = RateLimited | NotFound | UpstreamServerError | TransportError | Unknown

text \<open>
  Exceptions that can reach the handlers, each with what the handlers read from it:
  the status code and body text of an \<open>HTTPStatusError\<close>, \<open>str(e)\<close> of the others.
  \<open>ProgrammingError\<close> stands for any other subclass of \<open>Exception\<close> (a \<open>TypeError\<close>, a
  \<open>KeyError\<close>, ...), \<open>NonException\<close> for a \<open>BaseException\<close> outside \<open>Exception\<close>
  (a cancellation, a keyboard interrupt), which \<open>except Exception\<close> does not catch.
\<close>

datatype exn =
    HTTPStatusError int string
  | ConnectError string
  | TimeoutException string
  | JSONDecodeError string
  | ProgrammingError string
  | NonException string

datatype 'p result = Ok 'p | Err error_kind string | Propagated exn

text \<open>The body of \<open>except httpx.HTTPStatusError as e\<close>.\<close>

definition http_status_error_result :: "int \<Rightarrow> string \<Rightarrow> 'p result" where
  "http_status_error_result status_code text =
     (if status_code = 429 then
        Err RateLimited ''Rate limit exceeded. Consider using an API key for more requests.''
      else if status_code = 404 then
        Err NotFound ''Not found. The requested resource doesn't exist.''
      else if status_code \<ge> 500 then
        Err UpstreamServerError ''OpenDota API server error. Please try again later.''
      else Err TransportError (''HTTP error '' @ str_int status_code @ '': '' @ text))"

text \<open>The two handlers of the \<open>try\<close>, in the source's order.\<close>

fun handle_exn :: "exn \<Rightarrow> 'p result" where
  "handle_exn (HTTPStatusError status_code text) = http_status_error_result status_code text"
| "handle_exn (ConnectError d) = Err Unknown (''Unexpected error: '' @ d)"
| "handle_exn (TimeoutException d) = Err Unknown (''Unexpected error: '' @ d)"
| "handle_exn (JSONDecodeError d) = Err Unknown (''Unexpected error: '' @ d)"
| "handle_exn (ProgrammingError d) = Err Unknown (''Unexpected error: '' @ d)"
| "handle_exn (NonException d) = Propagated (NonException d)"

section \<open>Shared state, clock and environment\<close>

definition MAX_REQUESTS_PER_MINUTE :: nat where
  "MAX_REQUESTS_PER_MINUTE = 60"

definition CACHE_TTL :: real where
  "CACHE_TTL = 300"

definition OPENDOTA_API_BASE :: string where
  "OPENDOTA_API_BASE = ''https://api.opendota.com/api''"

text \<open>
  \<open>api_cache\<close> maps a cache key to \<open>(timestamp, data)\<close>. The payload \<open>data\<close> is the parsed
  JSON, opaque here. Times are the seconds of \<open>time.time()\<close>, taken as real numbers.
\<close>

type_synonym 'p cache = "(string \<times> (real \<times> 'p)) list"

text \<open>
  The process-wide state: the two globals \<open>request_timestamps\<close> and \<open>api_cache\<close>, the
  clock that \<open>time.time()\<close> reads, and the log of the calls of \<open>client.get\<close> (URL and
  parameters), which records the network effect. The clock advances at the suspension
  points (\<open>asyncio.sleep\<close>, the network call) and between calls.
\<close>

record 'p world =
  clock :: real
  request_timestamps :: "real list"
  api_cache :: "'p cache"
  net_calls :: "(string \<times> params) list"

text \<open>
  What \<open>client.get\<close> does: it raises, or it returns a response with a status code, a body
  text and the result of \<open>response.json()\<close> (\<open>Inl d\<close>: the body does not parse and
  \<open>json()\<close> raises a decode error with description \<open>d\<close>).
\<close>

datatype 'p response = Response int string "string + 'p"

datatype 'p net_outcome = Raises exn | Returns "'p response"

text \<open>
  The environment of one call: the API key of the process, how long past the requested
  duration \<open>asyncio.sleep\<close> resumes the task, how long the network call takes, and what the
  network answers to a URL and its parameters.
\<close>

record 'p env =
  api_key :: string
  sleep_extra :: real
  net_delay :: real
  net :: "string \<Rightarrow> params \<Rightarrow> 'p net_outcome"

section \<open>Rate limiter\<close>

text \<open>
  \<open>apply_rate_limit\<close>: prune the log to the timestamps younger than 60 seconds; at
  \<open>MAX_REQUESTS_PER_MINUTE\<close> or more, sleep until the oldest one is 60.1 seconds old;
  append the time read after the sleep. \<open>min\<close> is applied to a list of at least 60
  timestamps, so it does not raise.
\<close>

definition apply_rate_limit :: "real \<Rightarrow> 'p world \<Rightarrow> 'p world" where
  "apply_rate_limit extra w =
     (let current_time = clock w;
          ts = filter (\<lambda>t. current_time - t < 60) (request_timestamps w);
          w1 = (if length ts \<ge> MAX_REQUESTS_PER_MINUTE then
                  (let oldest_timestamp = min_list ts;
                       time_to_wait = 60 - (current_time - oldest_timestamp) + 0.1
                   in if time_to_wait > 0
                      then w\<lparr>clock := current_time + time_to_wait + extra\<rparr>
                      else w)
                else w)
      in w1\<lparr>request_timestamps := ts @ [clock w1]\<rparr>)"

text \<open>The number of recorded timestamps inside the trailing 60 second window.\<close>

definition in_window :: "'p world \<Rightarrow> nat" where
  "in_window w = length (filter (\<lambda>t. clock w - t < 60) (request_timestamps w))"

text \<open>
  Calls of the limiter one after another: before each call the clock advances by \<open>gap\<close>,
  and a sleep of that call overshoots by \<open>extra\<close>. The result lists the state after each call.
\<close>

fun run_rate_limit :: "(real \<times> real) list \<Rightarrow> 'p world \<Rightarrow> 'p world list" where
  "run_rate_limit [] w = []"
| "run_rate_limit ((gap, extra) # calls) w =
     (let w' = apply_rate_limit extra (w\<lparr>clock := clock w + gap\<rparr>)
      in w' # run_rate_limit calls w')"

section \<open>Response cache\<close>

text \<open>
  The lookup of \<open>make_opendota_request\<close>: \<open>api_cache.get(cache_key)\<close>, then the freshness
  test. A stored entry is a pair, hence truthy whatever its payload.
\<close>

definition cache_get :: "'p cache \<Rightarrow> string \<Rightarrow> real \<Rightarrow> 'p option" where
  "cache_get cache cache_key now =
     (case map_of cache cache_key of
        None \<Rightarrow> None
      | Some (timestamp, data) \<Rightarrow> if now - timestamp < CACHE_TTL then Some data else None)"

text \<open>The store \<open>api_cache[cache_key] = (time.time(), data)\<close>.\<close>

definition cache_put :: "'p cache \<Rightarrow> string \<Rightarrow> real \<Rightarrow> 'p \<Rightarrow> 'p cache" where
  "cache_put cache cache_key now data = AList.update cache_key (now, data) cache"

text \<open>
  \<open>cleanup_cache\<close>: collect the keys of the expired entries, delete them one by one, and
  log how many were removed and how many remain (returned here).
\<close>

definition cleanup_cache :: "'p world \<Rightarrow> (nat \<times> nat) \<times> 'p world" where
  "cleanup_cache w =
     (let current_time = clock w;
          expired_keys =
            map fst (filter (\<lambda>(key, (timestamp, _)). current_time - timestamp \<ge> CACHE_TTL) (api_cache w));
          cache' = fold AList.delete expired_keys (api_cache w)
      in ((length expired_keys, length cache'), w\<lparr>api_cache := cache'\<rparr>))"

section \<open>Dispatcher\<close>

text \<open>
  The body of the \<open>try\<close>: \<open>client.get\<close>, \<open>raise_for_status\<close> (httpx raises
  \<open>HTTPStatusError\<close> for every status outside 200..299), \<open>response.json()\<close>.
\<close>

fun try_body :: "'p net_outcome \<Rightarrow> exn + 'p" where
  "try_body (Raises e) = Inl e"
| "try_body (Returns (Response status_code text js)) =
     (if 200 \<le> status_code \<and> status_code \<le> 299 then
        (case js of Inl d \<Rightarrow> Inl (JSONDecodeError d) | Inr data \<Rightarrow> Inr data)
      else Inl (HTTPStatusError status_code text))"

text \<open>
  \<open>make_opendota_request\<close>, in the source's order: the rate limiter, the URL and the merged
  parameters, the cache key, the cache lookup, and on a miss the network call, whose
  payload is stored on success.
\<close>

definition make_opendota_request ::
  "'p env \<Rightarrow> string \<Rightarrow> params option \<Rightarrow> 'p world \<Rightarrow> 'p result \<times> 'p world" where
  "make_opendota_request env endpoint params w =
     (let w1 = apply_rate_limit (sleep_extra env) w;
          url = OPENDOTA_API_BASE @ ''/'' @ endpoint;
          request_params = request_params_of (api_key env) params;
          cache_key = request_cache_key (api_key env) endpoint params
      in case cache_get (api_cache w1) cache_key (clock w1) of
           Some data \<Rightarrow> (Ok data, w1)
         | None \<Rightarrow>
             (let w2 = w1\<lparr>net_calls := net_calls w1 @ [(url, request_params)],
                          clock := clock w1 + net_delay env\<rparr>
              in case try_body (net env url request_params) of
                   Inr data \<Rightarrow>
                     (Ok data, w2\<lparr>api_cache := cache_put (api_cache w2) cache_key (clock w2) data\<rparr>)
                 | Inl e \<Rightarrow> (handle_exn e, w2)))"

text \<open>The kind of an error result.\<close>

fun kind_of :: "'p result \<Rightarrow> error_kind option" where
  "kind_of (Err k m) = Some k"
| "kind_of (Ok data) = None"
| "kind_of (Propagated e) = None"

section \<open>Example states\<close>

text \<open>A cache at time 400 with two entries past the 300 seconds and two fresh ones.\<close>

definition cleanup_example :: "string world" where
  "cleanup_example = \<lparr>clock = 400, request_timestamps = [], api_cache =
      [(''heroes'', (50, ''h'')), (''players/1'', (150, ''p'')), (''teams/2'', (100, ''t'')), (''matches/3'', (399, ''m''))],
     net_calls = []\<rparr>"

text \<open>A limiter log holding the timestamps of sixty calls made at time 0.\<close>

definition limiter_burst :: "unit world" where
  "limiter_burst = \<lparr>clock = 0, request_timestamps = replicate 60 0, api_cache = [], net_calls = []\<rparr>"

text \<open>
  Environments without an API key whose network call fails in one way each: a refused
  connection, an exception of the program itself, a 2xx body that is not JSON, a
  cancellation, a 503 response.
\<close>

definition env_down :: "string env" where
  "env_down = \<lparr>api_key = [], sleep_extra = 0, net_delay = 0.5,
      net = (\<lambda>url ps. Raises (ConnectError ''connection refused''))\<rparr>"

definition env_fault :: "string env" where
  "env_fault = \<lparr>api_key = [], sleep_extra = 0, net_delay = 0.5,
      net = (\<lambda>url ps. Raises (ProgrammingError ''unsupported operand type''))\<rparr>"

definition env_bad_json :: "string env" where
  "env_bad_json = \<lparr>api_key = [], sleep_extra = 0, net_delay = 0.5,
      net = (\<lambda>url ps. Returns (Response 200 ''<html>'' (Inl ''Expecting value'')))\<rparr>"

definition env_cancelled :: "string env" where
  "env_cancelled = \<lparr>api_key = [], sleep_extra = 0, net_delay = 0.5,
      net = (\<lambda>url ps. Raises (NonException ''CancelledError''))\<rparr>"

definition env_503 :: "string env" where
  "env_503 = \<lparr>api_key = [], sleep_extra = 0, net_delay = 0.5,
      net = (\<lambda>url ps. Returns (Response 503 ''busy'' (Inl ''no JSON'')))\<rparr>"

text \<open>
  A search service: it answers with results for the value of the parameter \<open>q\<close>, and with
  status 400 when \<open>q\<close> is missing.
\<close>

definition env_search :: "string env" where
  "env_search = \<lparr>api_key = [], sleep_extra = 0, net_delay = 0.5,
      net = (\<lambda>url ps. case map_of ps ''q'' of
                          None \<Rightarrow> Returns (Response 400 ''missing q'' (Inl ''missing q''))
                        | Some v \<Rightarrow> Returns (Response 200 [] (Inr (''results for '' @ py_str v))))\<rparr>"

text \<open>
  States: an empty cache; a fresh entry for \<open>heroes\<close>; the same entry 400 seconds old; a
  fresh entry with the limiter log holding sixty calls made 30 seconds ago.
\<close>

definition world_empty :: "string world" where
  "world_empty = \<lparr>clock = 10, request_timestamps = [], api_cache = [], net_calls = []\<rparr>"

definition world_cached :: "string world" where
  "world_cached = \<lparr>clock = 10, request_timestamps = [],
      api_cache = [(''heroes'', (0, ''payload''))], net_calls = []\<rparr>"

definition world_cached_stale :: "string world" where
  "world_cached_stale = \<lparr>clock = 400, request_timestamps = [],
      api_cache = [(''heroes'', (0, ''payload''))], net_calls = []\<rparr>"

definition world_busy :: "string world" where
  "world_busy = \<lparr>clock = 30, request_timestamps = replicate 60 0,
      api_cache = [(''heroes'', (29, ''payload''))], net_calls = []\<rparr>"

text \<open>
  The scenario of a cached win count: the entry \<open>players/1\<close> stored at time 0, looked up at
  time 299 and at time 301, with a network that answers with a newer payload.
\<close>

definition env_fresh :: "string env" where
  "env_fresh = \<lparr>api_key = [], sleep_extra = 0, net_delay = 0.5,
      net = (\<lambda>url ps. Returns (Response 200 [] (Inr ''wins=11'')))\<rparr>"

definition world_299 :: "string world" where
  "world_299 = \<lparr>clock = 299, request_timestamps = [],
      api_cache = [(''players/1'', (0, ''wins=10''))], net_calls = []\<rparr>"

definition world_301 :: "string world" where
  "world_301 = \<lparr>clock = 301, request_timestamps = [],
      api_cache = [(''players/1'', (0, ''wins=10''))], net_calls = []\<rparr>"

section \<open>Unfolding the model on concrete inputs\<close>

lemmas eval_defs = make_opendota_request_def apply_rate_limit_def Let_def cache_get_def
  request_cache_key_def request_params_of_def API_PARAMS_def MAX_REQUESTS_PER_MINUTE_def
  OPENDOTA_API_BASE_def CACHE_TTL_def cache_put_def

section \<open>Cache key normalisation\<close>

lemma sort_key_fst_unique:
  assumes "distinct (map fst xs)" and "distinct (map fst ys)" and "set xs = set ys"
  shows "sort_key fst xs = sort_key fst ys"
proof -
  have dx: "distinct xs" and dy: "distinct ys"
    using assms(1,2) by (simp_all add: distinct_map)
  have "mset xs = mset ys"
    using dx dy assms(3) by (simp add: set_eq_iff_mset_eq_distinct)
  then have m: "mset xs = mset (sort_key fst ys)" by simp
  have inj: "inj_on fst (set xs)"
    using assms(1) by (simp add: distinct_map)
  show ?thesis
    by (rule sort_key_inj_key_eq [OF m inj]) simp
qed

lemma param_str_cong:
  assumes "distinct (map fst xs)" and "distinct (map fst ys)" and "set xs = set ys"
  shows "param_str xs = param_str ys"
  unfolding param_str_def using sort_key_fst_unique [OF assms] by simp

lemma set_empty_iff_same:
  assumes "set xs = set ys"
  shows "xs = [] \<longleftrightarrow> ys = []"
  using assms by (metis set_empty)

lemma map_of_dict_update: "map_of (dict_update d ps) = map_of d ++ map_of (rev ps)"
  unfolding dict_update_def
proof (induction ps arbitrary: d)
  case Nil
  show ?case by simp
next
  case (Cons p ps)
  obtain k v where p: "p = (k, v)" by (cases p)
  show ?case
    by (simp add: p Cons.IH update_conv' map_add_upd_left) (auto simp: map_add_def fun_eq_iff split: option.splits)
qed

lemma distinct_dict_update:
  "distinct (map fst d) \<Longrightarrow> distinct (map fst (dict_update d ps))"
  unfolding dict_update_def
  by (induction ps arbitrary: d) (auto simp: distinct_update)

text \<open>
  C8. Two parameter dicts with the same key/value pairs, in any insertion order, give the
  same cache key for the same endpoint: with \<open>get_cache_key\<close>, and with the key that
  \<open>make_opendota_request\<close> builds after merging the default parameters.
\<close>

theorem cache_key_order_independent:
  assumes "distinct (map fst paramsA)" and "distinct (map fst paramsB)"
    and "set paramsA = set paramsB"
  shows "get_cache_key endpoint (Some paramsA) = get_cache_key endpoint (Some paramsB)
       \<and> request_cache_key key endpoint (Some paramsA) = request_cache_key key endpoint (Some paramsB)"
proof -
  have e: "paramsA = [] \<longleftrightarrow> paramsB = []"
    by (rule set_empty_iff_same [OF assms(3)])
  have g: "get_cache_key endpoint (Some paramsA) = get_cache_key endpoint (Some paramsB)"
    unfolding get_cache_key_def using e param_str_cong [OF assms] by simp
  let ?ra = "dict_update (API_PARAMS key) paramsA"
  let ?rb = "dict_update (API_PARAMS key) paramsB"
  have dd: "distinct (map fst (API_PARAMS key))"
    by (simp add: API_PARAMS_def)
  have da: "distinct (map fst ?ra)" and db: "distinct (map fst ?rb)"
    using dd by (rule distinct_dict_update)+
  have "distinct (map fst (rev paramsA))" and "distinct (map fst (rev paramsB))"
    using assms(1,2) by (simp_all add: rev_map [symmetric])
  moreover have "set (rev paramsA) = set (rev paramsB)"
    using assms(3) by simp
  ultimately have "map_of (rev paramsA) = map_of (rev paramsB)"
    by (simp only: map_of_inject_set)
  then have "map_of ?ra = map_of ?rb"
    by (simp add: map_of_dict_update)
  then have s: "set ?ra = set ?rb"
    using da db by (simp add: map_of_inject_set)
  have p: "param_str ?ra = param_str ?rb"
    by (rule param_str_cong [OF da db s])
  have n: "?ra = [] \<longleftrightarrow> ?rb = []"
    by (rule set_empty_iff_same [OF s])
  have r: "request_cache_key key endpoint (Some paramsA) = request_cache_key key endpoint (Some paramsB)"
    unfolding request_cache_key_def request_params_of_def Let_def using e p n by simp
  show ?thesis using g r by simp
qed

theorem cache_key_order_independent_witness:
  "get_cache_key ''search'' (Some [(''q'', PStr ''io''), (''limit'', PInt 5)])
     = get_cache_key ''search'' (Some [(''limit'', PInt 5), (''q'', PStr ''io'')])
   \<and> request_cache_key ''K'' ''search'' (Some [(''q'', PStr ''io''), (''limit'', PInt 5)])
     = request_cache_key ''K'' ''search'' (Some [(''limit'', PInt 5), (''q'', PStr ''io'')])
   \<and> get_cache_key ''search'' (Some [(''q'', PStr ''io''), (''limit'', PInt 5)]) = ''search?limit=5&q=io''"
proof -
  have d1: "distinct (map fst [(''q'', PStr ''io''), (''limit'', PInt 5)])" by simp
  have d2: "distinct (map fst [(''limit'', PInt 5), (''q'', PStr ''io'')])" by simp
  have s: "set [(''q'', PStr ''io''), (''limit'', PInt 5)] = set [(''limit'', PInt 5), (''q'', PStr ''io'')]"
    by auto
  have v: "get_cache_key ''search'' (Some [(''q'', PStr ''io''), (''limit'', PInt 5)]) = ''search?limit=5&q=io''"
    by code_simp
  show ?thesis
    using cache_key_order_independent [OF d1 d2 s, of "''search''" "''K''"] v by simp
qed

text \<open>
  C10. The cache key is not injective in the parameters: for the endpoint \<open>search\<close>, the
  dict with the one pair \<open>q = "a&r=b"\<close> and the dict with the two pairs \<open>q = "a"\<close>, \<open>r = "b"\<close>
  are different mappings with the same key, under \<open>get_cache_key\<close> and under the key of
  \<open>make_opendota_request\<close>; so are a string and an integer that print alike. The two
  requests share one cache entry: on an empty cache the second is answered with
  "results for a", but made after the first it is answered from the cache with the
  payload of the first, and the network is called once.
\<close>

theorem cache_key_not_injective:
  "map_of [(''q'', PStr ''a&r=b'')] \<noteq> map_of [(''q'', PStr ''a''), (''r'', PStr ''b'')]
   \<and> get_cache_key ''search'' (Some [(''q'', PStr ''a&r=b'')])
       = get_cache_key ''search'' (Some [(''q'', PStr ''a''), (''r'', PStr ''b'')])
   \<and> request_cache_key key ''search'' (Some [(''q'', PStr ''a&r=b'')])
       = request_cache_key key ''search'' (Some [(''q'', PStr ''a''), (''r'', PStr ''b'')])
   \<and> PStr ''7'' \<noteq> PInt 7
   \<and> get_cache_key ''search'' (Some [(''q'', PStr ''7'')]) = get_cache_key ''search'' (Some [(''q'', PInt 7)])
   \<and> fst (make_opendota_request env_search ''search''
             (Some [(''q'', PStr ''a''), (''r'', PStr ''b'')]) world_empty) = Ok ''results for a''
   \<and> fst (make_opendota_request env_search ''search'' (Some [(''q'', PStr ''a''), (''r'', PStr ''b'')])
             (snd (make_opendota_request env_search ''search'' (Some [(''q'', PStr ''a&r=b'')]) world_empty)))
        = Ok ''results for a&r=b''
   \<and> net_calls (snd (make_opendota_request env_search ''search'' (Some [(''q'', PStr ''a''), (''r'', PStr ''b'')])
             (snd (make_opendota_request env_search ''search'' (Some [(''q'', PStr ''a&r=b'')]) world_empty))))
        = [(''https://api.opendota.com/api/search'', [(''q'', PStr ''a&r=b'')])]"
proof -
  have a: "map_of [(''q'', PStr ''a&r=b'')] \<noteq> map_of [(''q'', PStr ''a''), (''r'', PStr ''b'')]"
  proof
    assume "map_of [(''q'', PStr ''a&r=b'')] = map_of [(''q'', PStr ''a''), (''r'', PStr ''b'')]"
    then have "map_of [(''q'', PStr ''a&r=b'')] ''q'' = map_of [(''q'', PStr ''a''), (''r'', PStr ''b'')] ''q''"
      by (rule arg_cong)
    then show False by simp
  qed
  have b: "get_cache_key ''search'' (Some [(''q'', PStr ''a&r=b'')])
       = get_cache_key ''search'' (Some [(''q'', PStr ''a''), (''r'', PStr ''b'')])"
    by (simp add: get_cache_key_def param_str_def)
  have c: "request_cache_key key ''search'' (Some [(''q'', PStr ''a&r=b'')])
       = request_cache_key key ''search'' (Some [(''q'', PStr ''a''), (''r'', PStr ''b'')])"
    by (simp add: request_cache_key_def request_params_of_def API_PARAMS_def dict_update_def param_str_def)
  have d: "get_cache_key ''search'' (Some [(''q'', PStr ''7'')]) = get_cache_key ''search'' (Some [(''q'', PInt 7)])"
    by code_simp
  have e: "fst (make_opendota_request env_search ''search''
             (Some [(''q'', PStr ''a''), (''r'', PStr ''b'')]) world_empty) = Ok ''results for a''"
    by (simp add: eval_defs world_empty_def env_search_def param_str_def dict_update_def)
  have f: "make_opendota_request env_search ''search'' (Some [(''q'', PStr ''a&r=b'')]) world_empty
    = (Ok ''results for a&r=b'',
       \<lparr>clock = 10.5, request_timestamps = [10],
        api_cache = [(''search?q=a&r=b'', (10.5, ''results for a&r=b''))],
        net_calls = [(''https://api.opendota.com/api/search'', [(''q'', PStr ''a&r=b'')])]\<rparr>)"
    by (simp add: eval_defs world_empty_def env_search_def param_str_def dict_update_def)
  have g: "make_opendota_request env_search ''search'' (Some [(''q'', PStr ''a''), (''r'', PStr ''b'')])
       \<lparr>clock = 10.5, request_timestamps = [10],
        api_cache = [(''search?q=a&r=b'', (10.5, ''results for a&r=b''))],
        net_calls = [(''https://api.opendota.com/api/search'', [(''q'', PStr ''a&r=b'')])]\<rparr>
    = (Ok ''results for a&r=b'',
       \<lparr>clock = 10.5, request_timestamps = [10, 10.5],
        api_cache = [(''search?q=a&r=b'', (10.5, ''results for a&r=b''))],
        net_calls = [(''https://api.opendota.com/api/search'', [(''q'', PStr ''a&r=b'')])]\<rparr>)"
    by (simp add: eval_defs env_search_def param_str_def dict_update_def)
  show ?thesis
    unfolding f snd_conv g using a b c d e by simp
qed

section \<open>Response cache: stores and cleanup\<close>

lemma cache_get_put_same:
  "cache_get (cache_put cache k t0 d) k now = (if now - t0 < CACHE_TTL then Some d else None)"
  by (simp add: cache_get_def cache_put_def update_conv')

lemma fold_delete_filter:
  "fold AList.delete ks al = filter (\<lambda>p. fst p \<notin> set ks) al"
proof (induction ks arbitrary: al)
  case Nil
  show ?case by simp
next
  case (Cons k ks)
  have "AList.delete k al = filter (\<lambda>p. fst p \<noteq> k) al"
    by (induction al) auto
  then have "fold AList.delete (k # ks) al
      = filter (\<lambda>p. fst p \<notin> set ks) (filter (\<lambda>p. fst p \<noteq> k) al)"
    by (simp add: Cons.IH)
  also have "\<dots> = filter (\<lambda>p. fst p \<notin> set (k # ks)) al"
    by (induction al) auto
  finally show ?case .
qed


lemma cleanup_cache_filter:
  assumes "distinct (map fst (api_cache w))"
  shows "api_cache (snd (cleanup_cache w)) = filter (\<lambda>e. clock w - fst (snd e) < CACHE_TTL) (api_cache w)"
proof -
  let ?ex = "\<lambda>e::(string \<times> (real \<times> 'a)). clock w - fst (snd e) \<ge> CACHE_TTL"
  let ?ks = "map fst (filter ?ex (api_cache w))"
  have k: "\<And>e. e \<in> set (api_cache w) \<Longrightarrow> fst e \<in> set ?ks \<longleftrightarrow> ?ex e"
  proof -
    fix e assume e: "e \<in> set (api_cache w)"
    show "fst e \<in> set ?ks \<longleftrightarrow> ?ex e"
    proof
      assume "fst e \<in> set ?ks"
      then obtain e' where e': "e' \<in> set (api_cache w)" "?ex e'" "fst e' = fst e" by auto
      have "inj_on fst (set (api_cache w))"
        using assms by (simp add: distinct_map)
      then have "e' = e"
        using e e'(1,3) by (simp add: inj_on_eq_iff)
      then show "?ex e" using e'(2) by simp
    next
      assume "?ex e"
      then show "fst e \<in> set ?ks" using e by force
    qed
  qed
  have "api_cache (snd (cleanup_cache w)) = filter (\<lambda>p. fst p \<notin> set ?ks) (api_cache w)"
    by (simp add: cleanup_cache_def Let_def fold_delete_filter split_def)
  also have "\<dots> = filter (\<lambda>e. clock w - fst (snd e) < CACHE_TTL) (api_cache w)"
  proof (rule filter_cong)
    fix e assume "e \<in> set (api_cache w)"
    then show "(fst e \<notin> set ?ks) = (clock w - fst (snd e) < CACHE_TTL)"
      using k [of e] by (simp only: not_le)
  qed simp
  finally show ?thesis .
qed


lemma cleanup_cache_count:
  "fst (cleanup_cache w) =
     (length (filter (\<lambda>e. clock w - fst (snd e) \<ge> CACHE_TTL) (api_cache w)),
      length (api_cache (snd (cleanup_cache w))))"
  by (simp add: cleanup_cache_def Let_def split_def)

lemma cleanup_cache_frame:
  "clock (snd (cleanup_cache w)) = clock w
   \<and> request_timestamps (snd (cleanup_cache w)) = request_timestamps w
   \<and> net_calls (snd (cleanup_cache w)) = net_calls w"
  by (simp add: cleanup_cache_def Let_def)

lemma map_of_filter_distinct:
  assumes "distinct (map fst al)"
  shows "map_of (filter P al) k = (case map_of al k of None \<Rightarrow> None | Some v \<Rightarrow> if P (k, v) then Some v else None)"
proof -
  have d: "distinct (map fst (filter P al))"
    using assms by (rule distinct_map_filter)
  have iff: "map_of (filter P al) k = Some v \<longleftrightarrow> map_of al k = Some v \<and> P (k, v)" for v
  proof -
    have "map_of (filter P al) k = Some v \<longleftrightarrow> (k, v) \<in> set (filter P al)"
      by (rule map_of_eq_Some_iff [OF d])
    also have "\<dots> \<longleftrightarrow> (k, v) \<in> set al \<and> P (k, v)"
      by simp
    also have "\<dots> \<longleftrightarrow> map_of al k = Some v \<and> P (k, v)"
      by (simp only: map_of_eq_Some_iff [OF assms])
    finally show ?thesis .
  qed
  show ?thesis
  proof (cases "map_of al k")
    case None
    have "map_of (filter P al) k = None"
    proof (cases "map_of (filter P al) k")
      case (Some v)
      then show ?thesis using iff [of v] None by simp
    qed simp
    then show ?thesis by (simp only: None option.case)
  next
    case (Some v)
    show ?thesis
    proof (cases "P (k, v)")
      case True
      then have "map_of (filter P al) k = Some v"
        using iff [of v] Some by simp
      then show ?thesis by (simp only: Some option.case True if_True)
    next
      case False
      have "map_of (filter P al) k = None"
      proof (cases "map_of (filter P al) k")
        case (Some v')
        then show ?thesis using iff [of v'] \<open>map_of al k = Some v\<close> False by simp
      qed simp
      then show ?thesis by (simp only: Some option.case False if_False)
    qed
  qed
qed

text \<open>
  C6. \<open>cleanup_cache\<close> removes exactly the entries whose age is at least \<open>CACHE_TTL\<close>: the
  entries that remain are the fresh ones, in their order; the reported count is the number
  of expired entries, and with the reported remainder it adds up to the size before; every
  lookup from then on answers as it did before the sweep.
\<close>

theorem cleanup_cache_removes_expired:
  assumes "distinct (map fst (api_cache w))"
  shows "api_cache (snd (cleanup_cache w))
           = filter (\<lambda>e. clock w - fst (snd e) < CACHE_TTL) (api_cache w)
       \<and> fst (fst (cleanup_cache w))
           = length (filter (\<lambda>e. clock w - fst (snd e) \<ge> CACHE_TTL) (api_cache w))
       \<and> fst (fst (cleanup_cache w)) + snd (fst (cleanup_cache w)) = length (api_cache w)
       \<and> map_of (api_cache (snd (cleanup_cache w))) k
           = (case map_of (api_cache w) k of
                None \<Rightarrow> None
              | Some (timestamp, data) \<Rightarrow>
                  if clock w - timestamp \<ge> CACHE_TTL then None else Some (timestamp, data))
       \<and> (clock w \<le> t \<longrightarrow>
            cache_get (api_cache (snd (cleanup_cache w))) k t = cache_get (api_cache w) k t)"
proof -
  let ?fresh = "\<lambda>e::(string \<times> (real \<times> 'a)). clock w - fst (snd e) < CACHE_TTL"
  let ?c' = "api_cache (snd (cleanup_cache w))"
  have a: "?c' = filter ?fresh (api_cache w)"
    by (rule cleanup_cache_filter [OF assms])
  have b: "fst (fst (cleanup_cache w))
           = length (filter (\<lambda>e. clock w - fst (snd e) \<ge> CACHE_TTL) (api_cache w))"
    by (simp add: cleanup_cache_count)
  have "length (filter (\<lambda>e. \<not> ?fresh e) (api_cache w)) + length (filter ?fresh (api_cache w))
          = length (api_cache w)"
    using sum_length_filter_compl [of ?fresh "api_cache w"] by simp
  then have c: "fst (fst (cleanup_cache w)) + snd (fst (cleanup_cache w)) = length (api_cache w)"
    by (simp add: cleanup_cache_count a not_less)
  have m: "map_of ?c' k
           = (case map_of (api_cache w) k of
                None \<Rightarrow> None
              | Some v \<Rightarrow> if ?fresh (k, v) then Some v else None)"
    unfolding a by (rule map_of_filter_distinct [OF assms])
  have d: "map_of ?c' k
           = (case map_of (api_cache w) k of
                None \<Rightarrow> None
              | Some (timestamp, data) \<Rightarrow>
                  if clock w - timestamp \<ge> CACHE_TTL then None else Some (timestamp, data))"
    unfolding m by (auto split: option.splits)
  have e: "clock w \<le> t \<longrightarrow> cache_get ?c' k t = cache_get (api_cache w) k t"
    unfolding cache_get_def d by (auto split: option.splits)
  show ?thesis using a b c d e by blast
qed

theorem cleanup_cache_removes_expired_witness:
  "distinct (map fst (api_cache cleanup_example))
   \<and> cleanup_cache cleanup_example
       = ((2, 2), cleanup_example\<lparr>api_cache := [(''players/1'', (150, ''p'')), (''matches/3'', (399, ''m''))]\<rparr>)
   \<and> cache_get (api_cache (snd (cleanup_cache cleanup_example))) ''players/1'' 400 = Some ''p''
   \<and> cache_get (api_cache (snd (cleanup_cache cleanup_example))) ''heroes'' 400 = None"
proof -
  have d: "distinct (map fst (api_cache cleanup_example))"
    by (simp add: cleanup_example_def)
  have v: "cleanup_cache cleanup_example
       = ((2, 2), cleanup_example\<lparr>api_cache := [(''players/1'', (150, ''p'')), (''matches/3'', (399, ''m''))]\<rparr>)"
    by (simp add: cleanup_cache_def cleanup_example_def CACHE_TTL_def)
  have g: "cache_get (api_cache cleanup_example) ''players/1'' 400 = Some ''p''"
      "cache_get (api_cache cleanup_example) ''heroes'' 400 = None"
    by (simp_all add: cache_get_def cleanup_example_def CACHE_TTL_def)
  have c: "clock cleanup_example \<le> 400" by (simp add: cleanup_example_def)
  have t1: "cache_get (api_cache (snd (cleanup_cache cleanup_example))) ''players/1'' 400
              = cache_get (api_cache cleanup_example) ''players/1'' 400"
    using cleanup_cache_removes_expired [OF d, of "''players/1''" 400] c by blast
  have t2: "cache_get (api_cache (snd (cleanup_cache cleanup_example))) ''heroes'' 400
              = cache_get (api_cache cleanup_example) ''heroes'' 400"
    using cleanup_cache_removes_expired [OF d, of "''heroes''" 400] c by blast
  show ?thesis
    by (intro conjI d v) (simp_all only: t1 t2 g)
qed

section \<open>Rate limiter: the window bound\<close>

lemma length_filter_mono:
  "(\<And>x. x \<in> set xs \<Longrightarrow> P x \<Longrightarrow> Q x) \<Longrightarrow> length (filter P xs) \<le> length (filter Q xs)"
  by (induction xs) auto

lemma min_list_in_set: "(xs :: 'a::linorder list) \<noteq> [] \<Longrightarrow> min_list xs \<in> set xs"
  by (simp add: min_list_Min)

lemma apply_rate_limit_log:
  "request_timestamps (apply_rate_limit extra w)
     = filter (\<lambda>t. clock w - t < 60) (request_timestamps w) @ [clock (apply_rate_limit extra w)]"
  by (simp add: apply_rate_limit_def Let_def)

lemma apply_rate_limit_clock:
  "clock (apply_rate_limit extra w)
     = (let ts = filter (\<lambda>t. clock w - t < 60) (request_timestamps w);
            time_to_wait = 60 - (clock w - min_list ts) + 0.1
        in if length ts \<ge> MAX_REQUESTS_PER_MINUTE \<and> time_to_wait > 0
           then clock w + time_to_wait + extra else clock w)"
  by (simp add: apply_rate_limit_def Let_def)

lemma apply_rate_limit_frame:
  "api_cache (apply_rate_limit extra w) = api_cache w
   \<and> net_calls (apply_rate_limit extra w) = net_calls w"
  by (simp add: apply_rate_limit_def Let_def)

lemma apply_rate_limit_in_window:
  assumes inv: "in_window w0 \<le> MAX_REQUESTS_PER_MINUTE" and gap: "0 \<le> gap" and extra: "0 \<le> extra"
  shows "in_window (apply_rate_limit extra (w0\<lparr>clock := clock w0 + gap\<rparr>)) \<le> MAX_REQUESTS_PER_MINUTE"
proof -
  define w where "w = w0\<lparr>clock := clock w0 + gap\<rparr>"
  define now where "now = clock w"
  define ts where "ts = filter (\<lambda>t. now - t < 60) (request_timestamps w)"
  define w' where "w' = apply_rate_limit extra w"
  have now: "now = clock w0 + gap" by (simp add: now_def w_def)
  have rt: "request_timestamps w = request_timestamps w0"
    by (simp add: w_def)
  have "length ts \<le> length (filter (\<lambda>t. clock w0 - t < 60) (request_timestamps w0))"
    unfolding ts_def rt
  proof (rule length_filter_mono)
    fix x assume "now - x < 60"
    then show "clock w0 - x < 60" using gap now by simp
  qed
  then have len: "length ts \<le> MAX_REQUESTS_PER_MINUTE"
    using inv by (simp add: in_window_def)
  have log: "request_timestamps w' = ts @ [clock w']"
    unfolding w'_def ts_def now_def by (rule apply_rate_limit_log)
  have fresh: "\<And>t. t \<in> set ts \<Longrightarrow> now - t < 60"
    by (simp add: ts_def)
  show ?thesis
  proof (cases "length ts \<ge> MAX_REQUESTS_PER_MINUTE")
    case False
    then have c: "clock w' = now"
      unfolding w'_def by (simp add: apply_rate_limit_clock Let_def ts_def now_def)
    have "filter (\<lambda>t. now - t < 60) ts = ts"
      using fresh by (simp add: filter_id_conv)
    then have "in_window w' = length ts + 1"
      by (simp add: in_window_def log c)
    then show ?thesis
      using False by (simp add: w'_def w_def)
  next
    case True
    then have ne: "ts \<noteq> []"
      by (auto simp: MAX_REQUESTS_PER_MINUTE_def)
    have old: "min_list ts \<in> set ts"
      by (rule min_list_in_set [OF ne])
    then have pos: "60 - (now - min_list ts) + 0.1 > 0"
      using fresh [of "min_list ts"] by simp
    have c: "clock w' = now + (60 - (now - min_list ts) + 0.1) + extra"
      unfolding w'_def using True pos
      by (simp add: apply_rate_limit_clock Let_def ts_def now_def)
    have "\<not> clock w' - min_list ts < 60"
      using extra by (simp add: c)
    then have "length (filter (\<lambda>t. clock w' - t < 60) ts) < length ts"
      using old by (intro length_filter_less) simp_all
    then have "in_window w' \<le> length ts"
      by (simp add: in_window_def log)
    then show ?thesis
      using len by (simp add: w'_def w_def)
  qed
qed

lemma run_rate_limit_in_window:
  assumes "\<forall>c \<in> set calls. 0 \<le> fst c \<and> 0 \<le> snd c"
    and "in_window w0 \<le> MAX_REQUESTS_PER_MINUTE"
  shows "\<forall>w \<in> set (run_rate_limit calls w0). in_window w \<le> MAX_REQUESTS_PER_MINUTE"
  using assms
proof (induction calls arbitrary: w0)
  case Nil
  show ?case by simp
next
  case (Cons c calls)
  obtain gap extra where c: "c = (gap, extra)" by (cases c)
  have g: "0 \<le> gap" "0 \<le> extra" using Cons.prems(1) c by simp_all
  let ?w' = "apply_rate_limit extra (w0\<lparr>clock := clock w0 + gap\<rparr>)"
  have s: "in_window ?w' \<le> MAX_REQUESTS_PER_MINUTE"
    by (rule apply_rate_limit_in_window [OF Cons.prems(2) g])
  have r: "\<forall>w \<in> set (run_rate_limit calls ?w'). in_window w \<le> MAX_REQUESTS_PER_MINUTE"
    using Cons.IH [of ?w'] Cons.prems(1) s by simp
  show ?case
    using s r by (simp add: c Let_def)
qed


text \<open>
  C7. Calls of \<open>apply_rate_limit\<close> made one after another on a clock that does not go back
  (and sleeps that last at least as long as asked) keep the number of recorded timestamps
  inside the trailing 60 second window at \<open>MAX_REQUESTS_PER_MINUTE\<close> or less after every
  call. Each call keeps the timestamps younger than 60 seconds, sleeps for
  \<open>60 - (now - oldest) + 0.1\<close> when at least \<open>MAX_REQUESTS_PER_MINUTE\<close> of them remain and that
  wait is positive, and appends the time read after the sleep.
\<close>

theorem rate_limit_window_bound:
  assumes "\<forall>c \<in> set calls. 0 \<le> fst c \<and> 0 \<le> snd c"
    and "in_window w0 \<le> MAX_REQUESTS_PER_MINUTE"
  shows "(\<forall>w \<in> set (run_rate_limit calls w0). in_window w \<le> MAX_REQUESTS_PER_MINUTE)
       \<and> request_timestamps (apply_rate_limit extra w)
           = filter (\<lambda>t. clock w - t < 60) (request_timestamps w) @ [clock (apply_rate_limit extra w)]
       \<and> clock (apply_rate_limit extra w)
           = (let ts = filter (\<lambda>t. clock w - t < 60) (request_timestamps w);
                  time_to_wait = 60 - (clock w - min_list ts) + 0.1
              in if length ts \<ge> MAX_REQUESTS_PER_MINUTE \<and> time_to_wait > 0
                 then clock w + time_to_wait + extra else clock w)"
  using run_rate_limit_in_window [OF assms] apply_rate_limit_log [of extra w]
    apply_rate_limit_clock [of extra w]
  by (simp only: simp_thms)

theorem rate_limit_window_bound_witness:
  "(0::real) \<le> 30
   \<and> in_window limiter_burst \<le> MAX_REQUESTS_PER_MINUTE
   \<and> in_window (apply_rate_limit 0 (limiter_burst\<lparr>clock := clock limiter_burst + 30\<rparr>))
        \<le> MAX_REQUESTS_PER_MINUTE
   \<and> clock (apply_rate_limit 0 (limiter_burst\<lparr>clock := 30\<rparr>)) = 60.1"
proof -
  have h1: "\<forall>c \<in> set [(30::real, 0::real)]. 0 \<le> fst c \<and> 0 \<le> snd c"
    by simp
  have h2: "in_window limiter_burst \<le> MAX_REQUESTS_PER_MINUTE"
    by (simp add: in_window_def limiter_burst_def MAX_REQUESTS_PER_MINUTE_def)
  note t = rate_limit_window_bound [OF h1 h2, of 0 "limiter_burst\<lparr>clock := 30\<rparr>"]
  have a: "in_window (apply_rate_limit 0 (limiter_burst\<lparr>clock := clock limiter_burst + 30\<rparr>))
        \<le> MAX_REQUESTS_PER_MINUTE"
    using conjunct1 [OF t] by (simp add: Let_def)
  have m: "min_list (replicate 60 (0::real)) = 0"
    by (simp add: min_list_Min)
  have c: "clock (apply_rate_limit 0 (limiter_burst\<lparr>clock := 30\<rparr>)) = 60.1"
    using conjunct2 [OF conjunct2 [OF t]]
    by (simp add: Let_def limiter_burst_def MAX_REQUESTS_PER_MINUTE_def m)
  show ?thesis
    using h2 a c by simp
qed

section \<open>Dispatcher: hits, failures and the cache\<close>

lemma make_request_hit:
  assumes "cache_get (api_cache w) (request_cache_key (api_key env) endpoint params)
             (clock (apply_rate_limit (sleep_extra env) w)) = Some data"
  shows "make_opendota_request env endpoint params w = (Ok data, apply_rate_limit (sleep_extra env) w)"
  using assms by (simp add: make_opendota_request_def Let_def apply_rate_limit_frame)

lemma make_request_miss:
  assumes "cache_get (api_cache w) (request_cache_key (api_key env) endpoint params)
             (clock (apply_rate_limit (sleep_extra env) w)) = None"
  shows "make_opendota_request env endpoint params w =
     (let w1 = apply_rate_limit (sleep_extra env) w;
          url = OPENDOTA_API_BASE @ ''/'' @ endpoint;
          request_params = request_params_of (api_key env) params;
          w2 = w1\<lparr>net_calls := net_calls w1 @ [(url, request_params)],
                   clock := clock w1 + net_delay env\<rparr>
      in case try_body (net env url request_params) of
           Inr data \<Rightarrow>
             (Ok data, w2\<lparr>api_cache := cache_put (api_cache w2)
                  (request_cache_key (api_key env) endpoint params) (clock w2) data\<rparr>)
         | Inl e \<Rightarrow> (handle_exn e, w2))"
proof -
  have f: "api_cache (apply_rate_limit (sleep_extra env) w) = api_cache w"
    by (simp add: apply_rate_limit_frame)
  show ?thesis
    unfolding make_opendota_request_def Let_def f assms by (simp only: option.case)
qed

lemma filter_append_neq:
  assumes "P t"
  shows "filter P xs @ [t] \<noteq> xs"
proof
  assume e: "filter P xs @ [t] = xs"
  have "length (filter P (filter P xs @ [t])) = length (filter P xs) + 1"
    using assms by simp
  then show False
    using e by simp
qed

lemma handle_exn_not_Ok: "handle_exn e \<noteq> Ok data"
  by (cases e) (simp_all add: http_status_error_result_def)


text \<open>
  C1, as the code has it. \<open>make_opendota_request\<close> calls \<open>apply_rate_limit\<close> before it looks
  at the cache. When the cache holds a fresh entry for the key at the time of the lookup,
  the call returns the cached payload, makes no network call and leaves the cache as it
  was; the limiter has run all the same: the timestamp log is pruned and ends with the
  time of this call, so it differs from the log before the call.
\<close>

theorem cache_hit_passes_rate_limiter:
  assumes "cache_get (api_cache w) (request_cache_key (api_key env) endpoint params)
             (clock (apply_rate_limit (sleep_extra env) w)) = Some data"
  shows "make_opendota_request env endpoint params w = (Ok data, apply_rate_limit (sleep_extra env) w)
       \<and> net_calls (snd (make_opendota_request env endpoint params w)) = net_calls w
       \<and> api_cache (snd (make_opendota_request env endpoint params w)) = api_cache w
       \<and> request_timestamps (snd (make_opendota_request env endpoint params w))
           = filter (\<lambda>t. clock w - t < 60) (request_timestamps w)
               @ [clock (snd (make_opendota_request env endpoint params w))]
       \<and> (0 \<le> sleep_extra env \<longrightarrow>
            request_timestamps (snd (make_opendota_request env endpoint params w)) \<noteq> request_timestamps w)"
proof -
  let ?w1 = "apply_rate_limit (sleep_extra env) w"
  have r: "make_opendota_request env endpoint params w = (Ok data, ?w1)"
    by (rule make_request_hit [OF assms])
  have l: "request_timestamps ?w1 = filter (\<lambda>t. clock w - t < 60) (request_timestamps w) @ [clock ?w1]"
    by (rule apply_rate_limit_log)
  have n: "request_timestamps ?w1 \<noteq> request_timestamps w" if "0 \<le> sleep_extra env"
  proof -
    have "clock w \<le> clock ?w1"
      using that by (simp add: apply_rate_limit_clock Let_def)
    then have "clock w - clock ?w1 < 60"
      by simp
    then show ?thesis
      unfolding l by (rule filter_append_neq)
  qed
  show ?thesis
    unfolding r using l n by (simp add: apply_rate_limit_frame)
qed

theorem cache_hit_passes_rate_limiter_witness:
  "cache_get (api_cache world_cached) (request_cache_key (api_key env_down) ''heroes'' None)
      (clock (apply_rate_limit (sleep_extra env_down) world_cached)) = Some ''payload''
   \<and> 0 \<le> sleep_extra env_down
   \<and> make_opendota_request env_down ''heroes'' None world_cached
       = (Ok ''payload'', world_cached\<lparr>request_timestamps := [10]\<rparr>)
   \<and> request_timestamps (snd (make_opendota_request env_down ''heroes'' None world_cached))
       \<noteq> request_timestamps world_cached"
proof -
  have h: "cache_get (api_cache world_cached) (request_cache_key (api_key env_down) ''heroes'' None)
      (clock (apply_rate_limit (sleep_extra env_down) world_cached)) = Some ''payload''"
    by (simp add: eval_defs world_cached_def env_down_def)
  have e: "0 \<le> sleep_extra env_down"
    by (simp add: env_down_def)
  have a: "apply_rate_limit (sleep_extra env_down) world_cached = world_cached\<lparr>request_timestamps := [10]\<rparr>"
    by (simp add: eval_defs world_cached_def env_down_def)
  note t = cache_hit_passes_rate_limiter [OF h]
  have r: "make_opendota_request env_down ''heroes'' None world_cached
       = (Ok ''payload'', world_cached\<lparr>request_timestamps := [10]\<rparr>)"
    using conjunct1 [OF t] a by simp
  have n: "request_timestamps (snd (make_opendota_request env_down ''heroes'' None world_cached))
       \<noteq> request_timestamps world_cached"
    using t e by blast
  show ?thesis
    by (intro conjI h e r n)
qed

text \<open>
  C1 as stated fails: with a fresh entry for \<open>heroes\<close> and an empty log, the call is a cache
  hit and the log becomes \<open>[10]\<close>; with sixty timestamps 30 seconds old in the log, the
  cache hit is delayed from time 30 to time 60.1.
\<close>

theorem cache_hit_touches_limiter_counterexample:
  "cache_get (api_cache world_cached) (request_cache_key (api_key env_down) ''heroes'' None)
      (clock world_cached) = Some ''payload''
   \<and> fst (make_opendota_request env_down ''heroes'' None world_cached) = Ok ''payload''
   \<and> request_timestamps world_cached = []
   \<and> request_timestamps (snd (make_opendota_request env_down ''heroes'' None world_cached)) = [10]
   \<and> cache_get (api_cache world_busy) (request_cache_key (api_key env_down) ''heroes'' None)
      (clock world_busy) = Some ''payload''
   \<and> fst (make_opendota_request env_down ''heroes'' None world_busy) = Ok ''payload''
   \<and> clock world_busy = 30
   \<and> clock (snd (make_opendota_request env_down ''heroes'' None world_busy)) = 60.1"
proof -
  have a: "make_opendota_request env_down ''heroes'' None world_cached
       = (Ok ''payload'', world_cached\<lparr>request_timestamps := [10]\<rparr>)"
    by (simp add: eval_defs world_cached_def env_down_def)
  have m: "min_list (replicate 60 (0::real)) = 0"
    by (simp add: min_list_Min)
  have b: "make_opendota_request env_down ''heroes'' None world_busy
       = (Ok ''payload'', world_busy\<lparr>clock := 60.1, request_timestamps := replicate 60 0 @ [60.1]\<rparr>)"
    by (simp add: eval_defs world_busy_def env_down_def m)
  have c: "cache_get (api_cache world_cached) (request_cache_key (api_key env_down) ''heroes'' None)
      (clock world_cached) = Some ''payload''"
    by (simp add: eval_defs world_cached_def env_down_def)
  have d: "cache_get (api_cache world_busy) (request_cache_key (api_key env_down) ''heroes'' None)
      (clock world_busy) = Some ''payload''"
    by (simp add: eval_defs world_busy_def env_down_def)
  show ?thesis
    unfolding a b using c d by (simp add: world_cached_def world_busy_def)
qed


text \<open>
  C4. A call that does not return a payload leaves \<open>api_cache\<close> as it was. The cache
  changes in one way only: the \<open>try\<close> body succeeded with a payload, the call returns that
  payload, and the entry for the call's key is the payload with the time of the store.
\<close>

theorem failed_fetch_leaves_cache:
  "((\<forall>data. fst (make_opendota_request env endpoint params w) \<noteq> Ok data) \<longrightarrow>
      api_cache (snd (make_opendota_request env endpoint params w)) = api_cache w)
   \<and> (api_cache (snd (make_opendota_request env endpoint params w)) = api_cache w
      \<or> (\<exists>data.
            try_body (net env (OPENDOTA_API_BASE @ ''/'' @ endpoint)
                        (request_params_of (api_key env) params)) = Inr data
          \<and> fst (make_opendota_request env endpoint params w) = Ok data
          \<and> api_cache (snd (make_opendota_request env endpoint params w))
              = cache_put (api_cache w) (request_cache_key (api_key env) endpoint params)
                  (clock (snd (make_opendota_request env endpoint params w))) data))"
proof (cases "cache_get (api_cache w) (request_cache_key (api_key env) endpoint params)
             (clock (apply_rate_limit (sleep_extra env) w))")
  case (Some data)
  have "make_opendota_request env endpoint params w = (Ok data, apply_rate_limit (sleep_extra env) w)"
    by (rule make_request_hit [OF Some])
  then show ?thesis
    by (simp add: apply_rate_limit_frame)
next
  case None
  note m = make_request_miss [OF None]
  show ?thesis
  proof (cases "try_body (net env (OPENDOTA_API_BASE @ ''/'' @ endpoint)
                        (request_params_of (api_key env) params))")
    case (Inl e)
    then show ?thesis
      unfolding m Let_def by (simp add: apply_rate_limit_frame)
  next
    case (Inr data)
    then show ?thesis
      unfolding m Let_def by (simp add: apply_rate_limit_frame)
  qed
qed

theorem failed_fetch_leaves_cache_witness:
  "fst (make_opendota_request env_503 ''heroes'' None world_cached_stale)
       = Err UpstreamServerError ''OpenDota API server error. Please try again later.''
   \<and> api_cache (snd (make_opendota_request env_503 ''heroes'' None world_cached_stale))
       = api_cache world_cached_stale
   \<and> net_calls (snd (make_opendota_request env_503 ''heroes'' None world_cached_stale))
       = [(''https://api.opendota.com/api/heroes'', [])]"
proof -
  have v: "make_opendota_request env_503 ''heroes'' None world_cached_stale
     = (Err UpstreamServerError ''OpenDota API server error. Please try again later.'',
        world_cached_stale\<lparr>clock := 400.5, request_timestamps := [400],
          net_calls := [(''https://api.opendota.com/api/heroes'', [])]\<rparr>)"
    by (simp add: eval_defs world_cached_stale_def env_503_def http_status_error_result_def)
  have h: "\<forall>data. fst (make_opendota_request env_503 ''heroes'' None world_cached_stale) \<noteq> Ok data"
    by (simp add: v)
  have c: "api_cache (snd (make_opendota_request env_503 ''heroes'' None world_cached_stale))
       = api_cache world_cached_stale"
    using failed_fetch_leaves_cache [of env_503 "''heroes''" None world_cached_stale] h by blast
  show ?thesis
    using c by (simp add: v)
qed


lemma make_request_raises:
  assumes "cache_get (api_cache w) (request_cache_key (api_key env) endpoint params)
             (clock (apply_rate_limit (sleep_extra env) w)) = None"
    and "try_body (net env (OPENDOTA_API_BASE @ ''/'' @ endpoint)
           (request_params_of (api_key env) params)) = Inl e"
  shows "fst (make_opendota_request env endpoint params w) = handle_exn e"
  unfolding make_request_miss [OF assms(1)] Let_def assms(2) by simp

text \<open>
  C3, as the code has it. On a cache miss, a connection failure, a timeout and a 2xx
  response whose body is not JSON all reach the catch-all \<open>except Exception\<close> handler: the
  result is the error of kind \<open>Unknown\<close> whose message is "Unexpected error: " followed by
  the description of the failure.
\<close>

theorem no_status_failure_is_unexpected_error:
  assumes "cache_get (api_cache w) (request_cache_key (api_key env) endpoint params)
             (clock (apply_rate_limit (sleep_extra env) w)) = None"
    and "net env (OPENDOTA_API_BASE @ ''/'' @ endpoint) (request_params_of (api_key env) params)
           = Raises (ConnectError d)
       \<or> net env (OPENDOTA_API_BASE @ ''/'' @ endpoint) (request_params_of (api_key env) params)
           = Raises (TimeoutException d)
       \<or> (net env (OPENDOTA_API_BASE @ ''/'' @ endpoint) (request_params_of (api_key env) params)
           = Returns (Response status_code text (Inl d)) \<and> 200 \<le> status_code \<and> status_code \<le> 299)"
  shows "fst (make_opendota_request env endpoint params w) = Err Unknown (''Unexpected error: '' @ d)
       \<and> kind_of (fst (make_opendota_request env endpoint params w)) = Some Unknown"
proof -
  let ?out = "net env (OPENDOTA_API_BASE @ ''/'' @ endpoint) (request_params_of (api_key env) params)"
  have "\<exists>e. try_body ?out = Inl e \<and> (handle_exn e :: 'a result) = Err Unknown (''Unexpected error: '' @ d)"
    using assms(2) by auto
  then obtain e where e: "try_body ?out = Inl e"
      and h: "(handle_exn e :: 'a result) = Err Unknown (''Unexpected error: '' @ d)"
    by blast
  have "fst (make_opendota_request env endpoint params w) = handle_exn e"
    by (rule make_request_raises [OF assms(1) e])
  then show ?thesis
    by (simp add: h)
qed

theorem no_status_failure_is_unexpected_error_witness:
  "cache_get (api_cache world_empty) (request_cache_key (api_key env_bad_json) ''heroes'' None)
      (clock (apply_rate_limit (sleep_extra env_bad_json) world_empty)) = None
   \<and> net env_bad_json (OPENDOTA_API_BASE @ ''/'' @ ''heroes'') (request_params_of (api_key env_bad_json) None)
       = Returns (Response 200 ''<html>'' (Inl ''Expecting value''))
   \<and> fst (make_opendota_request env_bad_json ''heroes'' None world_empty)
       = Err Unknown ''Unexpected error: Expecting value''"
proof -
  have m: "cache_get (api_cache world_empty) (request_cache_key (api_key env_bad_json) ''heroes'' None)
      (clock (apply_rate_limit (sleep_extra env_bad_json) world_empty)) = None"
    by (simp add: eval_defs world_empty_def env_bad_json_def)
  have n: "net env_bad_json (OPENDOTA_API_BASE @ ''/'' @ ''heroes'') (request_params_of (api_key env_bad_json) None)
       = Returns (Response 200 ''<html>'' (Inl ''Expecting value''))"
    by (simp add: env_bad_json_def)
  have f: "net env_bad_json (OPENDOTA_API_BASE @ ''/'' @ ''heroes'') (request_params_of (api_key env_bad_json) None)
           = Raises (ConnectError ''Expecting value'')
       \<or> net env_bad_json (OPENDOTA_API_BASE @ ''/'' @ ''heroes'') (request_params_of (api_key env_bad_json) None)
           = Raises (TimeoutException ''Expecting value'')
       \<or> (net env_bad_json (OPENDOTA_API_BASE @ ''/'' @ ''heroes'') (request_params_of (api_key env_bad_json) None)
           = Returns (Response 200 ''<html>'' (Inl ''Expecting value'')) \<and> (200::int) \<le> 200 \<and> (200::int) \<le> 299)"
    using n by simp
  have r: "fst (make_opendota_request env_bad_json ''heroes'' None world_empty)
       = Err Unknown (''Unexpected error: '' @ ''Expecting value'')"
    using no_status_failure_is_unexpected_error [OF m f] by (rule conjunct1)
  show ?thesis
    using m n r by simp
qed

text \<open>
  C3 as stated fails: a refused connection gives "Unexpected error: connection refused",
  the result of the catch-all handler, not a \<open>TransportError\<close> with a generic description.
\<close>

theorem connection_failure_not_transport_error_counterexample:
  "net env_down (OPENDOTA_API_BASE @ ''/'' @ ''heroes'') (request_params_of (api_key env_down) None)
       = Raises (ConnectError ''connection refused'')
   \<and> fst (make_opendota_request env_down ''heroes'' None world_empty)
       = Err Unknown ''Unexpected error: connection refused''
   \<and> kind_of (fst (make_opendota_request env_down ''heroes'' None world_empty)) \<noteq> Some TransportError"
proof -
  have v: "fst (make_opendota_request env_down ''heroes'' None world_empty)
       = Err Unknown ''Unexpected error: connection refused''"
    by (simp add: eval_defs world_empty_def env_down_def)
  show ?thesis
    by (simp add: v) (simp add: env_down_def)
qed

text \<open>
  C9, as the code has it. On a cache miss, an unexpected fault raised inside the \<open>try\<close>, a
  programming error of the \<open>Exception\<close> hierarchy that is neither a transport nor an HTTP
  failure, does not propagate: the catch-all handler returns it as the error result
  "Unexpected error: ..." of kind \<open>Unknown\<close>. An exception propagates out of the call exactly
  when it lies outside the \<open>Exception\<close> hierarchy; an \<open>HTTPStatusError\<close> is answered by its
  own handler. The cache is unchanged in each case.
\<close>

theorem exceptions_absorbed_by_catch_all:
  assumes "cache_get (api_cache w) (request_cache_key (api_key env) endpoint params)
             (clock (apply_rate_limit (sleep_extra env) w)) = None"
    and "try_body (net env (OPENDOTA_API_BASE @ ''/'' @ endpoint)
           (request_params_of (api_key env) params)) = Inl e"
  shows "(e = ProgrammingError d \<longrightarrow>
            fst (make_opendota_request env endpoint params w) = Err Unknown (''Unexpected error: '' @ d))
       \<and> (e = HTTPStatusError status_code text \<longrightarrow>
            fst (make_opendota_request env endpoint params w) = http_status_error_result status_code text)
       \<and> (e = NonException d \<longrightarrow>
            fst (make_opendota_request env endpoint params w) = Propagated (NonException d))
       \<and> ((\<exists>e'. fst (make_opendota_request env endpoint params w) = Propagated e')
            \<longleftrightarrow> (\<exists>d'. e = NonException d'))
       \<and> api_cache (snd (make_opendota_request env endpoint params w)) = api_cache w"
proof -
  have f: "fst (make_opendota_request env endpoint params w) = handle_exn e"
    by (rule make_request_raises [OF assms])
  have c: "api_cache (snd (make_opendota_request env endpoint params w)) = api_cache w"
    unfolding make_request_miss [OF assms(1)] Let_def assms(2) by (simp add: apply_rate_limit_frame)
  have p: "(\<exists>e'. (handle_exn e :: 'a result) = Propagated e') \<longleftrightarrow> (\<exists>d'. e = NonException d')"
    by (cases e) (simp_all add: http_status_error_result_def)
  have q1: "e = ProgrammingError d \<longrightarrow> (handle_exn e :: 'a result) = Err Unknown (''Unexpected error: '' @ d)"
    by simp
  have q2: "e = HTTPStatusError status_code text \<longrightarrow>
      (handle_exn e :: 'a result) = http_status_error_result status_code text"
    by simp
  have q3: "e = NonException d \<longrightarrow> (handle_exn e :: 'a result) = Propagated (NonException d)"
    by simp
  show ?thesis
    unfolding f by (rule conjI [OF q1 conjI [OF q2 conjI [OF q3 conjI [OF p c]]]])
qed

theorem exceptions_absorbed_by_catch_all_witness:
  "cache_get (api_cache world_empty) (request_cache_key (api_key env_cancelled) ''heroes'' None)
      (clock (apply_rate_limit (sleep_extra env_cancelled) world_empty)) = None
   \<and> try_body (net env_cancelled (OPENDOTA_API_BASE @ ''/'' @ ''heroes'')
        (request_params_of (api_key env_cancelled) None)) = Inl (NonException ''CancelledError'')
   \<and> fst (make_opendota_request env_cancelled ''heroes'' None world_empty)
       = Propagated (NonException ''CancelledError'')
   \<and> try_body (net env_fault (OPENDOTA_API_BASE @ ''/'' @ ''heroes'')
        (request_params_of (api_key env_fault) None)) = Inl (ProgrammingError ''unsupported operand type'')
   \<and> fst (make_opendota_request env_fault ''heroes'' None world_empty)
       = Err Unknown (''Unexpected error: '' @ ''unsupported operand type'')
   \<and> try_body (net env_503 (OPENDOTA_API_BASE @ ''/'' @ ''heroes'')
        (request_params_of (api_key env_503) None)) = Inl (HTTPStatusError 503 ''busy'')
   \<and> fst (make_opendota_request env_503 ''heroes'' None world_empty)
       = http_status_error_result 503 ''busy''"
proof -
  have m: "cache_get (api_cache world_empty) (request_cache_key (api_key env_cancelled) ''heroes'' None)
      (clock (apply_rate_limit (sleep_extra env_cancelled) world_empty)) = None"
    by (simp add: eval_defs world_empty_def env_cancelled_def)
  have n: "try_body (net env_cancelled (OPENDOTA_API_BASE @ ''/'' @ ''heroes'')
        (request_params_of (api_key env_cancelled) None)) = Inl (NonException ''CancelledError'')"
    by (simp add: env_cancelled_def)
  have r: "fst (make_opendota_request env_cancelled ''heroes'' None world_empty)
       = Propagated (NonException ''CancelledError'')"
    using exceptions_absorbed_by_catch_all [OF m n, of "''CancelledError''"] by blast
  have m2: "cache_get (api_cache world_empty) (request_cache_key (api_key env_fault) ''heroes'' None)
      (clock (apply_rate_limit (sleep_extra env_fault) world_empty)) = None"
    by (simp add: eval_defs world_empty_def env_fault_def)
  have n2: "try_body (net env_fault (OPENDOTA_API_BASE @ ''/'' @ ''heroes'')
        (request_params_of (api_key env_fault) None)) = Inl (ProgrammingError ''unsupported operand type'')"
    by (simp add: env_fault_def)
  have r2: "fst (make_opendota_request env_fault ''heroes'' None world_empty)
       = Err Unknown (''Unexpected error: '' @ ''unsupported operand type'')"
    using exceptions_absorbed_by_catch_all [OF m2 n2, of "''unsupported operand type''"] by blast
  have m3: "cache_get (api_cache world_empty) (request_cache_key (api_key env_503) ''heroes'' None)
      (clock (apply_rate_limit (sleep_extra env_503) world_empty)) = None"
    by (simp add: eval_defs world_empty_def env_503_def)
  have n3: "try_body (net env_503 (OPENDOTA_API_BASE @ ''/'' @ ''heroes'')
        (request_params_of (api_key env_503) None)) = Inl (HTTPStatusError 503 ''busy'')"
    by (simp add: env_503_def)
  have r3: "fst (make_opendota_request env_503 ''heroes'' None world_empty)
       = http_status_error_result 503 ''busy''"
    using exceptions_absorbed_by_catch_all [OF m3 n3, of _ 503 "''busy''"]
    by blast
  show ?thesis
    by (intro conjI m n r n2 r2 n3 r3)
qed

text \<open>
  C9 as stated fails: a programming error raised inside the \<open>try\<close> does not propagate; the
  call returns the error result "Unexpected error: unsupported operand type".
\<close>

theorem programming_error_absorbed_counterexample:
  "net env_fault (OPENDOTA_API_BASE @ ''/'' @ ''heroes'') (request_params_of (api_key env_fault) None)
       = Raises (ProgrammingError ''unsupported operand type'')
   \<and> fst (make_opendota_request env_fault ''heroes'' None world_empty)
       = Err Unknown ''Unexpected error: unsupported operand type''
   \<and> fst (make_opendota_request env_fault ''heroes'' None world_empty)
       \<noteq> Propagated (ProgrammingError ''unsupported operand type'')"
proof -
  have v: "fst (make_opendota_request env_fault ''heroes'' None world_empty)
       = Err Unknown ''Unexpected error: unsupported operand type''"
    by (simp add: eval_defs world_empty_def env_fault_def)
  show ?thesis
    by (simp add: v) (simp add: env_fault_def)
qed

section \<open>Error classification\<close>

text \<open>
  C2. The handler of an HTTP status failure classifies by the status code: 429 is
  \<open>RateLimited\<close> with a message advising an API key, 404 is \<open>NotFound\<close> with a message
  saying the resource does not exist, every status of 500 or more is
  \<open>UpstreamServerError\<close> with a message advising to try again later, and every other
  status is \<open>TransportError\<close> with the status code and the body text in the message. On a
  cache miss, a response with a status outside 200..299 makes the dispatcher return this
  classification.
\<close>

theorem http_status_classification:
  "(http_status_error_result 429 text :: 'p result)
     = Err RateLimited ''Rate limit exceeded. Consider using an API key for more requests.''
   \<and> (http_status_error_result 404 text :: 'p result)
     = Err NotFound ''Not found. The requested resource doesn't exist.''
   \<and> (status_code \<ge> 500 \<longrightarrow> (http_status_error_result status_code text :: 'p result)
     = Err UpstreamServerError ''OpenDota API server error. Please try again later.'')
   \<and> (status_code \<noteq> 429 \<and> status_code \<noteq> 404 \<and> status_code < 500 \<longrightarrow>
        (http_status_error_result status_code text :: 'p result)
     = Err TransportError (''HTTP error '' @ str_int status_code @ '': '' @ text))
   \<and> (handle_exn (HTTPStatusError status_code text) :: 'p result)
     = http_status_error_result status_code text
   \<and> (cache_get (api_cache w) (request_cache_key (api_key env) endpoint params)
          (clock (apply_rate_limit (sleep_extra env) w)) = None
      \<and> net env (OPENDOTA_API_BASE @ ''/'' @ endpoint) (request_params_of (api_key env) params)
          = Returns (Response status_code text js)
      \<and> \<not> (200 \<le> status_code \<and> status_code \<le> 299)
      \<longrightarrow> fst (make_opendota_request env endpoint params (w :: 'p world))
            = http_status_error_result status_code text)"
proof -
  have d: "fst (make_opendota_request env endpoint params w) = http_status_error_result status_code text"
    if m: "cache_get (api_cache w) (request_cache_key (api_key env) endpoint params)
          (clock (apply_rate_limit (sleep_extra env) w)) = None"
      and n: "net env (OPENDOTA_API_BASE @ ''/'' @ endpoint) (request_params_of (api_key env) params)
          = Returns (Response status_code text js)"
      and f: "\<not> (200 \<le> status_code \<and> status_code \<le> 299)"
  proof -
    have t: "try_body (net env (OPENDOTA_API_BASE @ ''/'' @ endpoint)
           (request_params_of (api_key env) params)) = Inl (HTTPStatusError status_code text)"
      unfolding n using f by auto
    show ?thesis
      using make_request_raises [OF m t] by simp
  qed
  have c: "(http_status_error_result 429 text :: 'p result)
     = Err RateLimited ''Rate limit exceeded. Consider using an API key for more requests.''
   \<and> (http_status_error_result 404 text :: 'p result)
     = Err NotFound ''Not found. The requested resource doesn't exist.''
   \<and> (status_code \<ge> 500 \<longrightarrow> (http_status_error_result status_code text :: 'p result)
     = Err UpstreamServerError ''OpenDota API server error. Please try again later.'')
   \<and> (status_code \<noteq> 429 \<and> status_code \<noteq> 404 \<and> status_code < 500 \<longrightarrow>
        (http_status_error_result status_code text :: 'p result)
     = Err TransportError (''HTTP error '' @ str_int status_code @ '': '' @ text))
   \<and> (handle_exn (HTTPStatusError status_code text) :: 'p result)
     = http_status_error_result status_code text"
    by (simp add: http_status_error_result_def)
  show ?thesis
    using c d by blast
qed

theorem http_status_classification_witness:
  "(503::int) \<ge> 500
   \<and> (http_status_error_result 503 ''busy'' :: unit result)
       = Err UpstreamServerError ''OpenDota API server error. Please try again later.''
   \<and> (418::int) \<noteq> 429 \<and> (418::int) \<noteq> 404 \<and> (418::int) < 500
   \<and> (http_status_error_result 418 ''teapot'' :: unit result)
       = Err TransportError ''HTTP error 418: teapot''
   \<and> cache_get (api_cache world_empty) (request_cache_key (api_key env_503) ''heroes'' None)
          (clock (apply_rate_limit (sleep_extra env_503) world_empty)) = None
   \<and> net env_503 (OPENDOTA_API_BASE @ ''/'' @ ''heroes'') (request_params_of (api_key env_503) None)
          = Returns (Response 503 ''busy'' (Inl ''no JSON''))
   \<and> \<not> ((200::int) \<le> 503 \<and> (503::int) \<le> 299)
   \<and> fst (make_opendota_request env_503 ''heroes'' None world_empty)
       = Err UpstreamServerError ''OpenDota API server error. Please try again later.''"
proof -
  have s: "str_int 418 = ''418''" by code_simp
  have a: "(http_status_error_result 503 ''busy'' :: unit result)
       = Err UpstreamServerError ''OpenDota API server error. Please try again later.''"
    using http_status_classification [of "''busy''" 503, where 'p = unit] by simp
  have b: "(http_status_error_result 418 ''teapot'' :: unit result)
       = Err TransportError ''HTTP error 418: teapot''"
    using http_status_classification [of "''teapot''" 418, where 'p = unit] s by simp
  have m: "cache_get (api_cache world_empty) (request_cache_key (api_key env_503) ''heroes'' None)
          (clock (apply_rate_limit (sleep_extra env_503) world_empty)) = None"
    by (simp add: eval_defs world_empty_def env_503_def)
  have n: "net env_503 (OPENDOTA_API_BASE @ ''/'' @ ''heroes'') (request_params_of (api_key env_503) None)
          = Returns (Response 503 ''busy'' (Inl ''no JSON''))"
    by (simp add: env_503_def)
  have f: "\<not> ((200::int) \<le> 503 \<and> (503::int) \<le> 299)"
    by simp
  note t = http_status_classification [of "''busy''" 503 world_empty env_503 "''heroes''" None "Inl ''no JSON''"]
  have "fst (make_opendota_request env_503 ''heroes'' None world_empty)
       = http_status_error_result 503 ''busy''"
    using t m n f by blast
  also have "\<dots> = Err UpstreamServerError ''OpenDota API server error. Please try again later.''"
    using t by simp
  finally have c: "fst (make_opendota_request env_503 ''heroes'' None world_empty)
       = Err UpstreamServerError ''OpenDota API server error. Please try again later.''" .
  have z: "(503::int) \<ge> 500" "(418::int) \<noteq> 429" "(418::int) \<noteq> 404" "(418::int) < 500"
    by simp_all
  show ?thesis
    by (intro conjI z a b m n f c)
qed

section \<open>Dispatcher: freshness of the cache lookup\<close>

lemma make_request_miss_net:
  assumes "cache_get (api_cache w) (request_cache_key (api_key env) endpoint params)
             (clock (apply_rate_limit (sleep_extra env) w)) = None"
  shows "net_calls (snd (make_opendota_request env endpoint params w))
           = net_calls w @ [(OPENDOTA_API_BASE @ ''/'' @ endpoint, request_params_of (api_key env) params)]
       \<and> fst (make_opendota_request env endpoint params w)
           = (case try_body (net env (OPENDOTA_API_BASE @ ''/'' @ endpoint)
                      (request_params_of (api_key env) params)) of
                Inr data \<Rightarrow> Ok data
              | Inl e \<Rightarrow> handle_exn e)"
  unfolding make_request_miss [OF assms] Let_def
  by (cases "try_body (net env (OPENDOTA_API_BASE @ ''/'' @ endpoint)
                      (request_params_of (api_key env) params))")
     (simp_all add: apply_rate_limit_frame)

text \<open>
  C5. The lookup returns a payload exactly when the key has an entry whose age
  \<open>now - timestamp\<close> is below \<open>CACHE_TTL\<close>; an older entry counts as absent although it is
  still stored. After a store at \<open>t0\<close>, a lookup at \<open>t0 + CACHE_TTL - eps\<close> hits and a lookup
  at \<open>t0 + CACHE_TTL + eps\<close> misses. \<open>make_opendota_request\<close> follows the lookup: when it
  gives a payload the call returns it and the network is not called; when it gives none,
  and so whenever the stored entry is \<open>CACHE_TTL\<close> old or older, the call goes to the network
  and returns what the fetch gives.
\<close>

theorem cache_freshness:
  "(cache_get (cache :: 'p cache) cache_key now = Some data
      \<longleftrightarrow> (\<exists>timestamp. map_of cache cache_key = Some (timestamp, data) \<and> now - timestamp < CACHE_TTL))
   \<and> (0 < eps \<longrightarrow> cache_get (cache_put cache cache_key t0 data) cache_key (t0 + CACHE_TTL - eps) = Some data)
   \<and> (0 \<le> eps \<longrightarrow> cache_get (cache_put cache cache_key t0 data) cache_key (t0 + CACHE_TTL + eps) = None)
   \<and> (cache_get (api_cache w) (request_cache_key (api_key env) endpoint params)
         (clock (apply_rate_limit (sleep_extra env) w)) = Some payload
       \<longrightarrow> make_opendota_request env endpoint params (w :: 'p world)
             = (Ok payload, apply_rate_limit (sleep_extra env) w)
         \<and> net_calls (snd (make_opendota_request env endpoint params w)) = net_calls w)
   \<and> (cache_get (api_cache w) (request_cache_key (api_key env) endpoint params)
         (clock (apply_rate_limit (sleep_extra env) w)) = None
       \<longrightarrow> net_calls (snd (make_opendota_request env endpoint params w))
             = net_calls w @ [(OPENDOTA_API_BASE @ ''/'' @ endpoint, request_params_of (api_key env) params)]
         \<and> fst (make_opendota_request env endpoint params w)
             = (case try_body (net env (OPENDOTA_API_BASE @ ''/'' @ endpoint)
                        (request_params_of (api_key env) params)) of
                  Inr fetched \<Rightarrow> Ok fetched
                | Inl e \<Rightarrow> handle_exn e))
   \<and> (map_of (api_cache w) (request_cache_key (api_key env) endpoint params) = Some (stored_at, stale)
       \<and> CACHE_TTL \<le> clock (apply_rate_limit (sleep_extra env) w) - stored_at
       \<longrightarrow> net_calls (snd (make_opendota_request env endpoint params w))
             = net_calls w @ [(OPENDOTA_API_BASE @ ''/'' @ endpoint, request_params_of (api_key env) params)])"
proof -
  let ?key = "request_cache_key (api_key env) endpoint params"
  let ?t1 = "clock (apply_rate_limit (sleep_extra env) w)"
  have a: "cache_get cache cache_key now = Some data
      \<longleftrightarrow> (\<exists>timestamp. map_of cache cache_key = Some (timestamp, data) \<and> now - timestamp < CACHE_TTL)"
    by (auto simp: cache_get_def split: option.splits if_splits)
  have b: "0 < eps \<longrightarrow> cache_get (cache_put cache cache_key t0 data) cache_key (t0 + CACHE_TTL - eps) = Some data"
    by (simp add: cache_get_put_same)
  have c: "0 \<le> eps \<longrightarrow> cache_get (cache_put cache cache_key t0 data) cache_key (t0 + CACHE_TTL + eps) = None"
    by (simp add: cache_get_put_same)
  have d: "cache_get (api_cache w) ?key ?t1 = Some payload
       \<longrightarrow> make_opendota_request env endpoint params w
             = (Ok payload, apply_rate_limit (sleep_extra env) w)
         \<and> net_calls (snd (make_opendota_request env endpoint params w)) = net_calls w"
  proof
    assume h: "cache_get (api_cache w) ?key ?t1 = Some payload"
    show "make_opendota_request env endpoint params w
             = (Ok payload, apply_rate_limit (sleep_extra env) w)
         \<and> net_calls (snd (make_opendota_request env endpoint params w)) = net_calls w"
      unfolding make_request_hit [OF h] by (simp add: apply_rate_limit_frame)
  qed
  have e: "cache_get (api_cache w) ?key ?t1 = None
       \<longrightarrow> net_calls (snd (make_opendota_request env endpoint params w))
             = net_calls w @ [(OPENDOTA_API_BASE @ ''/'' @ endpoint, request_params_of (api_key env) params)]
         \<and> fst (make_opendota_request env endpoint params w)
             = (case try_body (net env (OPENDOTA_API_BASE @ ''/'' @ endpoint)
                        (request_params_of (api_key env) params)) of
                  Inr fetched \<Rightarrow> Ok fetched
                | Inl e \<Rightarrow> handle_exn e)"
  proof
    assume h: "cache_get (api_cache w) ?key ?t1 = None"
    show "net_calls (snd (make_opendota_request env endpoint params w))
             = net_calls w @ [(OPENDOTA_API_BASE @ ''/'' @ endpoint, request_params_of (api_key env) params)]
         \<and> fst (make_opendota_request env endpoint params w)
             = (case try_body (net env (OPENDOTA_API_BASE @ ''/'' @ endpoint)
                        (request_params_of (api_key env) params)) of
                  Inr fetched \<Rightarrow> Ok fetched
                | Inl e \<Rightarrow> handle_exn e)"
      by (rule make_request_miss_net [OF h])
  qed
  have f: "map_of (api_cache w) ?key = Some (stored_at, stale) \<and> CACHE_TTL \<le> ?t1 - stored_at
       \<longrightarrow> net_calls (snd (make_opendota_request env endpoint params w))
             = net_calls w @ [(OPENDOTA_API_BASE @ ''/'' @ endpoint, request_params_of (api_key env) params)]"
  proof
    assume h: "map_of (api_cache w) ?key = Some (stored_at, stale) \<and> CACHE_TTL \<le> ?t1 - stored_at"
    have "cache_get (api_cache w) ?key ?t1 = None"
      using h by (simp add: cache_get_def)
    then show "net_calls (snd (make_opendota_request env endpoint params w))
             = net_calls w @ [(OPENDOTA_API_BASE @ ''/'' @ endpoint, request_params_of (api_key env) params)]"
      by (rule conjunct1 [OF make_request_miss_net])
  qed
  show ?thesis
    by (rule conjI [OF a conjI [OF b conjI [OF c conjI [OF d conjI [OF e f]]]]])
qed


theorem cache_freshness_witness:
  "(0::real) < 1
   \<and> cache_get (cache_put [] ''players/1'' 0 ''wins=10'') ''players/1'' 299 = Some ''wins=10''
   \<and> cache_get (cache_put [] ''players/1'' 0 ''wins=10'') ''players/1'' 301 = None
   \<and> cache_get (api_cache world_299) (request_cache_key (api_key env_fresh) ''players/1'' None)
         (clock (apply_rate_limit (sleep_extra env_fresh) world_299)) = Some ''wins=10''
   \<and> make_opendota_request env_fresh ''players/1'' None world_299
       = (Ok ''wins=10'', world_299\<lparr>request_timestamps := [299]\<rparr>)
   \<and> map_of (api_cache world_301) (request_cache_key (api_key env_fresh) ''players/1'' None)
       = Some (0, ''wins=10'')
   \<and> CACHE_TTL \<le> clock (apply_rate_limit (sleep_extra env_fresh) world_301) - 0
   \<and> cache_get (api_cache world_301) (request_cache_key (api_key env_fresh) ''players/1'' None)
         (clock (apply_rate_limit (sleep_extra env_fresh) world_301)) = None
   \<and> fst (make_opendota_request env_fresh ''players/1'' None world_301) = Ok ''wins=11''
   \<and> net_calls (snd (make_opendota_request env_fresh ''players/1'' None world_301))
       = [(''https://api.opendota.com/api/players/1'', [])]"
proof -
  note t1 = cache_freshness [where cache = "[]" and cache_key = "''players/1''" and ?t0.0 = 0
      and data = "''wins=10''" and eps = 1 and w = world_299 and env = env_fresh
      and endpoint = "''players/1''" and params = None and payload = "''wins=10''"]
  note t2 = cache_freshness [where cache = "[]" and cache_key = "''players/1''" and ?t0.0 = 0
      and data = "''wins=10''" and eps = 1 and w = world_301 and env = env_fresh
      and endpoint = "''players/1''" and params = None and stored_at = 0 and stale = "''wins=10''"]
  have z: "(0::real) < 1" by simp
  have g1: "cache_get (cache_put [] ''players/1'' 0 ''wins=10'') ''players/1'' 299 = Some ''wins=10''"
    using conjunct1 [OF conjunct2 [OF t1]] by (simp add: CACHE_TTL_def)
  have g2: "cache_get (cache_put [] ''players/1'' 0 ''wins=10'') ''players/1'' 301 = None"
    using conjunct1 [OF conjunct2 [OF conjunct2 [OF t1]]] by (simp add: CACHE_TTL_def)
  have h: "cache_get (api_cache world_299) (request_cache_key (api_key env_fresh) ''players/1'' None)
         (clock (apply_rate_limit (sleep_extra env_fresh) world_299)) = Some ''wins=10''"
    by (simp add: eval_defs world_299_def env_fresh_def)
  have a: "apply_rate_limit (sleep_extra env_fresh) world_299 = world_299\<lparr>request_timestamps := [299]\<rparr>"
    by (simp add: eval_defs world_299_def env_fresh_def)
  have r1: "make_opendota_request env_fresh ''players/1'' None world_299
       = (Ok ''wins=10'', world_299\<lparr>request_timestamps := [299]\<rparr>)"
    using conjunct1 [OF conjunct2 [OF conjunct2 [OF conjunct2 [OF t1]]]] h a by simp
  have m: "map_of (api_cache world_301) (request_cache_key (api_key env_fresh) ''players/1'' None)
       = Some (0, ''wins=10'')"
    by (simp add: eval_defs world_301_def env_fresh_def)
  have o: "CACHE_TTL \<le> clock (apply_rate_limit (sleep_extra env_fresh) world_301) - 0"
    by (simp add: eval_defs world_301_def env_fresh_def)
  have n: "cache_get (api_cache world_301) (request_cache_key (api_key env_fresh) ''players/1'' None)
         (clock (apply_rate_limit (sleep_extra env_fresh) world_301)) = None"
    by (simp add: eval_defs world_301_def env_fresh_def)
  have tb: "try_body (net env_fresh (OPENDOTA_API_BASE @ ''/'' @ ''players/1'')
              (request_params_of (api_key env_fresh) None)) = Inr ''wins=11''"
    by (simp add: env_fresh_def)
  have r2: "fst (make_opendota_request env_fresh ''players/1'' None world_301) = Ok ''wins=11''"
    using conjunct1 [OF conjunct2 [OF conjunct2 [OF conjunct2 [OF conjunct2 [OF t2]]]]] n
    unfolding tb by simp
  have r3: "net_calls (snd (make_opendota_request env_fresh ''players/1'' None world_301))
       = [(''https://api.opendota.com/api/players/1'', [])]"
    using conjunct2 [OF conjunct2 [OF conjunct2 [OF conjunct2 [OF conjunct2 [OF t2]]]]] m o
    by (simp add: world_301_def env_fresh_def OPENDOTA_API_BASE_def request_params_of_def API_PARAMS_def)
  show ?thesis
    by (intro conjI z g1 g2 h r1 m o n r2 r3)
qed

end
